theory Spec2Isabelle
  imports Main "HOL-Library.Word" "HOL-Library.Multiset"
begin

unbundle bit_operations_syntax

section \<open>The indexed min-heap of heap-uint32.c\<close>

text \<open>
  The heap of \<^verbatim>\<open>heap-uint32.c\<close> keeps two parallel arrays, \<^verbatim>\<open>ptys\<close> and \<^verbatim>\<open>elts\<close>, of
  \<^verbatim>\<open>heap_size\<close> slots each, of which the first \<^verbatim>\<open>num_elts\<close> are in use, and a hash table
  \<^verbatim>\<open>ht\<close> from element blocks to \<^verbatim>\<open>uint32_t\<close> slot indices. All indices are \<^verbatim>\<open>uint32_t\<close>
  and are modelled as \<open>32 word\<close>, so that \<open>+\<close>, \<open>-\<close> and \<open>*\<close> wrap as in C.

  The fields \<^verbatim>\<open>pty_size\<close>, \<^verbatim>\<open>elt_size\<close>, \<^verbatim>\<open>alpha\<close>, \<^verbatim>\<open>cmp_elt_fn\<close> and \<^verbatim>\<open>free_elt_fn\<close>
  of the C struct are set once by \<^verbatim>\<open>heap_uint32_init\<close> and take no part in push, search,
  update and pop other than as block widths; the record leaves them out.

  A priority block of \<^verbatim>\<open>pty_size\<close> bytes is a value of type \<open>'p\<close> and an element block of
  \<^verbatim>\<open>elt_size\<close> bytes a value of type \<open>'e\<close>; \<^verbatim>\<open>memcpy\<close> of a block is assignment of the
  value, and equality of values is equality of bit patterns. The byte offsets
  \<^verbatim>\<open>i * pty_size\<close> and the allocator are below this level: \<^verbatim>\<open>malloc\<close> and \<^verbatim>\<open>realloc\<close>
  are taken to succeed (their failure is an assertion failure in the source).

  The lists \<open>ptys\<close> and \<open>elts\<close> hold the slots that have been written so far, in slot
  order; slots of the allocated block beyond them are indeterminate. A read of slot \<open>i\<close>
  is defined only below the length of the list, a write only below \<open>heap_size\<close>.
\<close>

datatype error = Assert_Failed | Out_Of_Bounds

record ('p, 'e) heap_uint32_t =
  heap_size :: "32 word"
  heap_max_size :: "32 word"
  num_elts :: "32 word"
  ptys :: "'p list"
  elts :: "'e list"
  ht :: "'e \<rightharpoonup> 32 word"
  cmp_pty_fn :: "'p \<Rightarrow> 'p \<Rightarrow> int"

subsection \<open>The hash table interface\<close>

text \<open>
  Modelled from the spec: the hash table \<^verbatim>\<open>ht_div_uint32_t\<close> with its functions
  \<^verbatim>\<open>ht_div_uint32_insert\<close>, \<^verbatim>\<open>ht_div_uint32_search\<close> and \<^verbatim>\<open>ht_div_uint32_remove\<close> is not
  among the sources. Following the contract given for the side-index (insert: if the key
  is present overwrite the stored value, otherwise add the key with the value; search:
  the stored value of a present key, null if absent; remove: copy the value out and drop
  the key, an absent key leaves the out block unchanged) it is a finite map from keys to
  values.
\<close>

definition ht_div_uint32_insert :: "('k \<rightharpoonup> 'v) \<Rightarrow> 'k \<Rightarrow> 'v \<Rightarrow> ('k \<rightharpoonup> 'v)" where
  "ht_div_uint32_insert t key elt = t(key \<mapsto> elt)"

definition ht_div_uint32_search :: "('k \<rightharpoonup> 'v) \<Rightarrow> 'k \<Rightarrow> 'v option" where
  "ht_div_uint32_search t key = t key"

definition ht_div_uint32_remove :: "('k \<rightharpoonup> 'v) \<Rightarrow> 'k \<Rightarrow> 'v \<Rightarrow> ('k \<rightharpoonup> 'v) \<times> 'v" where
  "ht_div_uint32_remove t key elt =
     (case t key of None \<Rightarrow> (t, elt) | Some v \<Rightarrow> (t(key := None), v))"

subsection \<open>Slots\<close>

text \<open>The block that \<^verbatim>\<open>pty_ptr(h, i)\<close> or \<^verbatim>\<open>elt_ptr(h, i)\<close> points to, when it is read.\<close>

definition pty_ptr :: "('p, 'e) heap_uint32_t \<Rightarrow> 32 word \<Rightarrow> 'p option" where
  "pty_ptr h i = (if unat i < length (ptys h) then Some (ptys h ! unat i) else None)"

definition elt_ptr :: "('p, 'e) heap_uint32_t \<Rightarrow> 32 word \<Rightarrow> 'e option" where
  "elt_ptr h i = (if unat i < length (elts h) then Some (elts h ! unat i) else None)"


subsection \<open>Initialisation\<close>



subsection \<open>Helper functions\<close>

definition swap ::
  "('p, 'e) heap_uint32_t \<Rightarrow> 32 word \<Rightarrow> 32 word \<Rightarrow> error + ('p, 'e) heap_uint32_t" where
  "swap h i j =
     (if i = j then Inr h
      else
        (case (elt_ptr h i, elt_ptr h j, pty_ptr h i, pty_ptr h j) of
           (Some ei, Some ej, Some pi, Some pj) \<Rightarrow>
             let es = (elts h)[unat i := ej, unat j := ei];
                 ps = (ptys h)[unat i := pj, unat j := pi];
                 t1 = ht_div_uint32_insert (ht h) (es ! unat i) i;
                 t2 = ht_div_uint32_insert t1 (es ! unat j) j
             in Inr (h\<lparr>elts := es, ptys := ps, ht := t2\<rparr>)
         | _ \<Rightarrow> Inl Out_Of_Bounds))"



text \<open>
  The \<^verbatim>\<open>while\<close> loop of \<^verbatim>\<open>heapify_down\<close>. Its guard and its child indices are computed
  in \<open>32 word\<close>; outside the function's precondition the loop need not stop, so that it
  is a partial function and \<open>None\<close> stands for a loop that does not return. It returns
  the heap and the last value of \<open>i\<close>.
\<close>

definition heapify_down_guard :: "('p, 'e) heap_uint32_t \<Rightarrow> 32 word \<Rightarrow> bool" where
  "heapify_down_guard h i = (i + 2 \<le> num_elts h - 1 - i)"

partial_function (option) heapify_down_loop ::
  "('p, 'e) heap_uint32_t \<Rightarrow> 32 word \<Rightarrow> (error + ('p, 'e) heap_uint32_t \<times> 32 word) option"
where
  "heapify_down_loop h i =
     (if heapify_down_guard h i then
        (let jl = 2 * i + 1; jr = 2 * i + 2 in
         case (pty_ptr h i, pty_ptr h jl, pty_ptr h jr) of
           (Some pi, Some pl, Some pr) \<Rightarrow>
             if 0 < cmp_pty_fn h pi pl \<and> cmp_pty_fn h pl pr \<le> 0 then
               (case swap h i jl of
                  Inl e \<Rightarrow> Some (Inl e)
                | Inr h' \<Rightarrow> heapify_down_loop h' jl)
             else if 0 < cmp_pty_fn h pi pr then
               (case swap h i jr of
                  Inl e \<Rightarrow> Some (Inl e)
                | Inr h' \<Rightarrow> heapify_down_loop h' jr)
             else Some (Inr (h, i))
         | _ \<Rightarrow> Some (Inl Out_Of_Bounds))
      else Some (Inr (h, i)))"

definition heapify_down ::
  "('p, 'e) heap_uint32_t \<Rightarrow> 32 word \<Rightarrow> (error + ('p, 'e) heap_uint32_t) option" where
  "heapify_down h i =
     (if \<not> (0 < num_elts h \<and> i < num_elts h) then Some (Inl Assert_Failed)
      else
        (case heapify_down_loop h i of
           None \<Rightarrow> None
         | Some (Inl e) \<Rightarrow> Some (Inl e)
         | Some (Inr (h', i')) \<Rightarrow>
             if i' + 1 = num_elts h' - 1 - i' then
               (let jl = 2 * i' + 1 in
                case (pty_ptr h' i', pty_ptr h' jl) of
                  (Some pi, Some pl) \<Rightarrow>
                    if 0 < cmp_pty_fn h' pi pl then Some (swap h' i' jl)
                    else Some (Inr h')
                | _ \<Rightarrow> Some (Inl Out_Of_Bounds))
             else Some (Inr h')))"

subsection \<open>The public operations\<close>


text \<open>
  \<^verbatim>\<open>heap_uint32_search\<close> takes a pointer to the heap that is not \<^verbatim>\<open>const\<close>; the model
  returns the heap it leaves together with its result. The pointer \<^verbatim>\<open>pty_ptr(h, ix)\<close> it
  returns is the slot index, \<open>None\<close> is \<^verbatim>\<open>NULL\<close>.
\<close>

definition heap_uint32_search ::
  "('p, 'e) heap_uint32_t \<Rightarrow> 'e \<Rightarrow> 32 word option \<times> ('p, 'e) heap_uint32_t" where
  "heap_uint32_search h elt =
     (case ht_div_uint32_search (ht h) elt of
        Some ix \<Rightarrow> (Some ix, h)
      | None \<Rightarrow> (None, h))"


text \<open>
  \<^verbatim>\<open>heap_uint32_pop\<close> writes through its parameters \<^verbatim>\<open>pty\<close> and \<^verbatim>\<open>elt\<close>; the model takes
  the contents of the two blocks before the call and returns their contents after it.
\<close>

definition heap_uint32_pop ::
  "('p, 'e) heap_uint32_t \<Rightarrow> 'p \<Rightarrow> 'e \<Rightarrow>
     (error + ('p, 'e) heap_uint32_t \<times> 'p \<times> 'e) option" where
  "heap_uint32_pop h pty elt =
     (if num_elts h = 0 then Some (Inr (h, pty, elt))
      else
        (case (elt_ptr h 0, pty_ptr h 0) of
           (Some elt', Some pty') \<Rightarrow>
             (case swap h 0 (num_elts h - 1) of
                Inl e \<Rightarrow> Some (Inl e)
              | Inr h1 \<Rightarrow>
                  let h2 = h1\<lparr>ht := fst (ht_div_uint32_remove (ht h1) elt' 0),
                              num_elts := num_elts h1 - 1\<rparr>
                  in if 0 < num_elts h2 then
                       (case heapify_down h2 0 of
                          None \<Rightarrow> None
                        | Some (Inl e) \<Rightarrow> Some (Inl e)
                        | Some (Inr h3) \<Rightarrow> Some (Inr (h3, pty', elt')))
                     else Some (Inr (h2, pty', elt')))
         | _ \<Rightarrow> Some (Inl Out_Of_Bounds)))"

subsection \<open>Repeated pop\<close>


section \<open>Specification\<close>

subsection \<open>The comparison function\<close>



definition preord :: "('p \<Rightarrow> 'p \<Rightarrow> bool) \<Rightarrow> bool" where
  "preord le = ((\<forall>a b. le a b \<or> le b a) \<and> (\<forall>a b c. le a b \<longrightarrow> le b c \<longrightarrow> le a c))"

subsection \<open>Heap order on a list of priorities\<close>

text \<open>
  The parent of slot \<open>k\<close>, and heap order on the first \<open>n\<close> entries of a list: no
  entry is smaller than the entry of its parent.
\<close>

definition par :: "nat \<Rightarrow> nat" where
  "par k = (k - 1) div 2"

definition heap_upto :: "('p \<Rightarrow> 'p \<Rightarrow> bool) \<Rightarrow> 'p list \<Rightarrow> nat \<Rightarrow> bool" where
  "heap_upto le ps n = (\<forall>k. 0 < k \<and> k < n \<longrightarrow> le (ps ! par k) (ps ! k))"


text \<open>Heap order with one slot \<open>i\<close> that may be too large for its children.\<close>

definition down_ok :: "('p \<Rightarrow> 'p \<Rightarrow> bool) \<Rightarrow> 'p list \<Rightarrow> nat \<Rightarrow> nat \<Rightarrow> bool" where
  "down_ok le ps n i =
     ((\<forall>k. 0 < k \<and> k < n \<and> par k \<noteq> i \<longrightarrow> le (ps ! par k) (ps ! k)) \<and>
      (\<forall>k. 0 < k \<and> k < n \<and> par k = i \<and> 0 < i \<longrightarrow> le (ps ! par i) (ps ! k)))"

definition exch :: "'a list \<Rightarrow> nat \<Rightarrow> nat \<Rightarrow> 'a list" where
  "exch xs i j = xs[i := xs ! j, j := xs ! i]"

subsection \<open>Invariants of the heap\<close>

text \<open>The effect of \<^verbatim>\<open>swap\<close> on two different slots, with the indices as numbers.\<close>

definition swp :: "('p, 'e) heap_uint32_t \<Rightarrow> nat \<Rightarrow> nat \<Rightarrow> ('p, 'e) heap_uint32_t" where
  "swp h a b =
     h\<lparr>elts := exch (elts h) a b, ptys := exch (ptys h) a b,
       ht := (ht h)(elts h ! b \<mapsto> of_nat a, elts h ! a \<mapsto> of_nat b)\<rparr>"

text \<open>
  The capacity invariant: the slots in use have been written, both arrays have the same
  written part, it fits the allocated \<open>heap_size\<close> slots, and \<open>heap_size\<close> does not
  exceed \<open>heap_max_size\<close>, which is \<open>2^32 - 2\<close>. \<open>slots_ok\<close> is the part of it that the
  sift passes need.
\<close>

definition sizes_ok :: "('p, 'e) heap_uint32_t \<Rightarrow> bool" where
  "sizes_ok h =
     (unat (num_elts h) \<le> length (ptys h) \<and> length (elts h) = length (ptys h) \<and>
      length (ptys h) \<le> unat (heap_size h) \<and> heap_size h \<le> heap_max_size h \<and>
      heap_max_size h = 0xFFFFFFFE)"










subsection \<open>Reachable heaps\<close>



subsection \<open>Heap order as the operations see it\<close>


subsection \<open>Whether a sift pass of an update moves anything\<close>



subsection \<open>A small heap of numbers\<close>

text \<open>
  Priorities and elements of type \<open>nat\<close>, compared as numbers; the heaps after
  initialisation with one slot and after pushing \<open>(5, 10)\<close>, \<open>(3, 11)\<close> and
  \<open>(8, 12)\<close> in turn.
\<close>

definition cmp_nat :: "nat \<Rightarrow> nat \<Rightarrow> int" where
  "cmp_nat a b = (if a < b then - 1 else if b < a then 1 else 0)"

definition ex_h0 :: "(nat, nat) heap_uint32_t" where
  "ex_h0 = \<lparr>heap_size = 1, heap_max_size = 0xFFFFFFFE, num_elts = 0,
             ptys = [], elts = [], ht = Map.empty, cmp_pty_fn = cmp_nat\<rparr>"





section \<open>Proofs\<close>


subsection \<open>Heap order under an exchange of two slots\<close>


lemma length_exch[simp]: "length (exch xs i j) = length xs" by (simp add: exch_def)

lemma par_less: "0 < k \<Longrightarrow> par k < k" by (simp add: par_def) 







lemma heap_upto_down_ok: "heap_upto le ps n \<Longrightarrow> preord le \<Longrightarrow> i < n \<Longrightarrow> down_ok le ps n i"
  unfolding down_ok_def heap_upto_def preord_def
  by (metis par_less)


subsection \<open>The comparison function and the effect of swap\<close>




lemma swp_fields [simp]:
  "num_elts (swp h a b) = num_elts h" "heap_size (swp h a b) = heap_size h"
  "heap_max_size (swp h a b) = heap_max_size h" "cmp_pty_fn (swp h a b) = cmp_pty_fn h"
  "ptys (swp h a b) = exch (ptys h) a b" "elts (swp h a b) = exch (elts h) a b"
  "ht (swp h a b) = (ht h)(elts h ! b \<mapsto> of_nat a, elts h ! a \<mapsto> of_nat b)"
  by (simp_all add: swp_def)


lemma swp_sizes_ok: "sizes_ok h \<Longrightarrow> sizes_ok (swp h a b)"
  by (auto simp: sizes_ok_def)













subsection \<open>Index arithmetic in 32 bits\<close>







subsection \<open>The loop of heapify_down\<close>











subsection \<open>The two sift passes\<close>





subsection \<open>Initialisation and update\<close>













subsection \<open>Pop and push\<close>












subsection \<open>Push preserves the invariants\<close>



subsection \<open>Reachable heaps and repeated pop\<close>






subsection \<open>The example heaps\<close>

















section \<open>The claims\<close>









text \<open>
  C7. \<^verbatim>\<open>heap_uint32_pop\<close> on a heap with \<open>num_elts = 0\<close> returns normally with the heap
  and the two out blocks as they were.
\<close>

theorem pop_empty:
  assumes "num_elts h = 0"
  shows "heap_uint32_pop h pty elt = Some (Inr (h, pty, elt))"
  using assms by (simp add: heap_uint32_pop_def)

theorem pop_empty_witness:
  "num_elts ex_h0 = 0 \<and> heap_uint32_pop ex_h0 7 9 = Some (Inr (ex_h0, 7, 9))"
proof -
  have z: "num_elts ex_h0 = 0" by (simp add: ex_h0_def)
  show ?thesis using z pop_empty[OF z, of 7 9] by simp
qed

text \<open>
  C9. \<^verbatim>\<open>heap_uint32_search\<close> returns what the side-index holds for the element and leaves
  the heap as it was.
\<close>

theorem search_frame:
  "heap_uint32_search h elt = (ht_div_uint32_search (ht h) elt, h)"
  by (simp add: heap_uint32_search_def split: option.splits)









end
